theory Spec2Isabelle
  imports Main
begin

section \<open>The YOLOv8 to Core ML conversion script\<close>

text \<open>
  A shallow embedding of \<^verbatim>\<open>convert_yolov8_to_coreml.py\<close>. The script is console glue
  around an external library, so the model is a state-and-exception program over an
  explicit outside world: what the library, the package installer and the file system do
  is a parameter, and every statement about the script holds for all of their behaviours.
\<close>

subsection \<open>Python values and exceptions\<close>

text \<open>
  The exceptions the script can meet, by the class that decides which \<^verbatim>\<open>except\<close>
  clause catches them. \<open>ImportError\<close> stands for that class and its subclasses,
  \<open>EOFError\<close> is what \<^verbatim>\<open>input()\<close> raises on exhausted standard input,
  \<open>OtherException\<close> is any other instance of \<^verbatim>\<open>Exception\<close>, and \<open>NonException\<close> is an
  instance of \<^verbatim>\<open>BaseException\<close> outside \<^verbatim>\<open>Exception\<close> (\<^verbatim>\<open>SystemExit\<close>,
  \<^verbatim>\<open>KeyboardInterrupt\<close>). The argument is the text \<^verbatim>\<open>str(e)\<close>; for an exception
  raised by a built-in call it is the name of the exception's class.
\<close>

datatype exn =
    ImportError string
  | EOFError string
  | OtherException string
  | NonException string

fun str :: "exn \<Rightarrow> string" where
  "str (ImportError m) = m"
| "str (EOFError m) = m"
| "str (OtherException m) = m"
| "str (NonException m) = m"

text \<open>\<^verbatim>\<open>isinstance(e, ImportError)\<close> and \<^verbatim>\<open>isinstance(e, Exception)\<close>.\<close>

fun is_ImportError :: "exn \<Rightarrow> bool" where
  "is_ImportError (ImportError m) = True"
| "is_ImportError e = False"

fun is_Exception :: "exn \<Rightarrow> bool" where
  "is_Exception (NonException m) = False"
| "is_Exception e = True"

text \<open>
  The three values the functions of the script return: \<^verbatim>\<open>True\<close>, \<^verbatim>\<open>False\<close> and
  \<^verbatim>\<open>None\<close> (also the value of a function that falls off its end).
\<close>

datatype pyval = PyTrue | PyFalse | PyNone

fun truthy :: "pyval \<Rightarrow> bool" where
  "truthy PyTrue = True"
| "truthy PyFalse = False"
| "truthy PyNone = False"

subsection \<open>Console text\<close>

text \<open>
  A printed text is a list of fragments: literal characters (\<open>S\<close>), one of the
  pictographs the script decorates its messages with (\<open>I\<close>), the absolute form of a
  path (\<^verbatim>\<open>model_path.absolute()\<close>), and a byte count shown in mebibytes with one
  decimal (\<^verbatim>\<open>st_size / (1024*1024):.1f\<close>, whose floating-point rendering is left
  symbolic). The literal text of the script is ASCII apart from the pictographs.
\<close>

datatype icon =
    Check | Rocket | Inbox | Cycle | Folder | Chart | Phone | Cross
  | Clipboard | Bullet | Bat | Wave | Party

datatype frag =
    S string
  | I icon
  | AbsPath string
  | MiB nat

type_synonym message = "frag list"

definition nl :: string where
  "nl = [CHR 0x0A]"

text \<open>An error message is a text marked with the cross pictograph.\<close>

definition is_error_message :: "message \<Rightarrow> bool" where
  "is_error_message t = (I Cross \<in> set t)"

subsection \<open>The outside world\<close>

text \<open>The keyword arguments of \<^verbatim>\<open>model.export\<close>.\<close>

record export_args =
  format :: string
  imgsz :: int
  simplify :: bool
  nms :: bool
  int8 :: bool
  half :: bool
  device :: string

text \<open>
  The state of the world outside the script: the lines waiting on standard input and the
  files of the file system with their sizes (a relative path is taken from the working
  directory). No other process changes the files between two calls of the script.
\<close>

record world =
  stdin :: "string list"
  files :: "string \<rightharpoonup> nat"

text \<open>
  The external code: the two import statements \<^verbatim>\<open>import ultralytics\<close> and
  \<^verbatim>\<open>from ultralytics import YOLO\<close>, which run the code of the package,
  \<^verbatim>\<open>os.system(cmd)\<close>, the library's model loader \<^verbatim>\<open>YOLO(weights)\<close> and
  \<^verbatim>\<open>model.export(**args)\<close> of the model loaded from \<open>weights\<close>. Each changes the world
  in any way it likes; all but \<^verbatim>\<open>os.system\<close> may raise (\<open>None\<close>: the call succeeds).
\<close>

record lib =
  import_ultralytics :: "world \<Rightarrow> exn option \<times> world"
  import_YOLO :: "world \<Rightarrow> exn option \<times> world"
  os_system :: "string \<Rightarrow> world \<Rightarrow> world"
  YOLO :: "string \<Rightarrow> world \<Rightarrow> exn option \<times> world"
  export :: "string \<Rightarrow> export_args \<Rightarrow> world \<Rightarrow> exn option \<times> world"

text \<open>
  What a run does, in order. \<open>Call\<close> marks the entry of one of the script's functions;
  the other events are the calls that leave the script.
\<close>

datatype event =
    Call string
  | Print message
  | Input message
  | OsSystem string
  | ImportUltralytics
  | ImportYOLO
  | Load string
  | Export string export_args
  | Exists string
  | Stat string

text \<open>
  The state of a run: the world, what was done so far, and the pictographs that standard
  output can encode. A \<^verbatim>\<open>Print\<close> event is a text that was written.
\<close>

record state =
  world :: world
  trace :: "event list"
  encodes :: "icon \<Rightarrow> bool"

subsection \<open>Programs: state passing with exceptions\<close>

type_synonym 'a prog = "state \<Rightarrow> (exn + 'a) \<times> state"

definition ret :: "'a \<Rightarrow> 'a prog" where
  "ret x = (\<lambda>s. (Inr x, s))"

definition raise :: "exn \<Rightarrow> 'a prog" where
  "raise e = (\<lambda>s. (Inl e, s))"

definition bind_prog :: "'a prog \<Rightarrow> ('a \<Rightarrow> 'b prog) \<Rightarrow> 'b prog" where
  "bind_prog m f = (\<lambda>s. case m s of (Inl e, s') \<Rightarrow> (Inl e, s') | (Inr x, s') \<Rightarrow> f x s')"

definition seq_prog :: "unit prog \<Rightarrow> 'a prog \<Rightarrow> 'a prog" where
  "seq_prog m n = bind_prog m (\<lambda>_. n)"

text \<open>A block of statements followed by the rest of the function.\<close>

definition block :: "unit prog list \<Rightarrow> 'a prog \<Rightarrow> 'a prog" where
  "block ms k = foldr seq_prog ms k"

text \<open>\<^verbatim>\<open>try: m except ...: h e\<close>; a handler re-raises what its clauses do not match.\<close>

definition try_except :: "'a prog \<Rightarrow> (exn \<Rightarrow> 'a prog) \<Rightarrow> 'a prog" where
  "try_except m h = (\<lambda>s. case m s of (Inl e, s') \<Rightarrow> h e s' | (Inr x, s') \<Rightarrow> (Inr x, s'))"

text \<open>\<^verbatim>\<open>for x in xs: body(x)\<close>.\<close>

primrec for_each :: "'a list \<Rightarrow> ('a \<Rightarrow> unit prog) \<Rightarrow> unit prog" where
  "for_each [] body = ret ()"
| "for_each (x # xs) body = seq_prog (body x) (for_each xs body)"

definition emit :: "event \<Rightarrow> state \<Rightarrow> state" where
  "emit e s = s\<lparr>trace := trace s @ [e]\<rparr>"

definition enter :: "string \<Rightarrow> 'a prog \<Rightarrow> 'a prog" where
  "enter name body = (\<lambda>s. body (emit (Call name) s))"

subsection \<open>The built-in and external calls\<close>

text \<open>
  \<^verbatim>\<open>print(t)\<close> encodes the text for standard output before it writes any of it, and
  raises \<^verbatim>\<open>UnicodeEncodeError\<close> when a pictograph of the text cannot be encoded. The
  ASCII text of the script can always be encoded, and so, it is assumed, can the text
  of an exception and a path.
\<close>

fun encodable :: "(icon \<Rightarrow> bool) \<Rightarrow> message \<Rightarrow> bool" where
  "encodable enc [] = True"
| "encodable enc (I i # t) = (enc i \<and> encodable enc t)"
| "encodable enc (f # t) = encodable enc t"

definition print :: "message \<Rightarrow> unit prog" where
  "print t = (\<lambda>s.
     if encodable (encodes s) t then (Inr (), emit (Print t) s)
     else (Inl (OtherException ''UnicodeEncodeError''), s))"

text \<open>
  \<^verbatim>\<open>input(prompt)\<close> shows the prompt, which is ASCII in both calls of the script, and
  takes the next line of standard input, without its line end; on exhausted input it
  raises \<^verbatim>\<open>EOFError\<close>.
\<close>

definition input :: "message \<Rightarrow> string prog" where
  "input prompt = (\<lambda>s.
     let s1 = emit (Input prompt) s in
     case stdin (world s1) of
       [] \<Rightarrow> (Inl (EOFError ''EOF when reading a line''), s1)
     | l # ls \<Rightarrow> (Inr l, s1\<lparr>world := (world s1)\<lparr>stdin := ls\<rparr>\<rparr>))"

definition os_system_call :: "lib \<Rightarrow> string \<Rightarrow> unit prog" where
  "os_system_call L cmd = (\<lambda>s.
     (Inr (), (emit (OsSystem cmd) s)\<lparr>world := os_system L cmd (world s)\<rparr>))"

text \<open>\<^verbatim>\<open>import ultralytics\<close> and \<^verbatim>\<open>from ultralytics import YOLO\<close>.\<close>

definition import_ultralytics_stmt :: "lib \<Rightarrow> unit prog" where
  "import_ultralytics_stmt L = (\<lambda>s.
     case import_ultralytics L (world s) of
       (Some e, w') \<Rightarrow> (Inl e, (emit ImportUltralytics s)\<lparr>world := w'\<rparr>)
     | (None, w') \<Rightarrow> (Inr (), (emit ImportUltralytics s)\<lparr>world := w'\<rparr>))"

definition from_ultralytics_import_YOLO :: "lib \<Rightarrow> unit prog" where
  "from_ultralytics_import_YOLO L = (\<lambda>s.
     case import_YOLO L (world s) of
       (Some e, w') \<Rightarrow> (Inl e, (emit ImportYOLO s)\<lparr>world := w'\<rparr>)
     | (None, w') \<Rightarrow> (Inr (), (emit ImportYOLO s)\<lparr>world := w'\<rparr>))"

text \<open>
  \<^verbatim>\<open>YOLO(weights)\<close> gives a model, known by the weights file it was loaded from;
  \<^verbatim>\<open>model.export(**args)\<close> exports that model.
\<close>

datatype model = Model string

definition YOLO_call :: "lib \<Rightarrow> string \<Rightarrow> model prog" where
  "YOLO_call L weights = (\<lambda>s.
     case YOLO L weights (world s) of
       (Some e, w') \<Rightarrow> (Inl e, (emit (Load weights) s)\<lparr>world := w'\<rparr>)
     | (None, w') \<Rightarrow> (Inr (Model weights), (emit (Load weights) s)\<lparr>world := w'\<rparr>))"

fun export_call :: "lib \<Rightarrow> model \<Rightarrow> export_args \<Rightarrow> unit prog" where
  "export_call L (Model weights) args = (\<lambda>s.
     case export L weights args (world s) of
       (Some e, w') \<Rightarrow> (Inl e, (emit (Export weights args) s)\<lparr>world := w'\<rparr>)
     | (None, w') \<Rightarrow> (Inr (), (emit (Export weights args) s)\<lparr>world := w'\<rparr>))"

text \<open>
  \<^verbatim>\<open>Path(p).exists()\<close> and \<^verbatim>\<open>Path(p).stat().st_size\<close> read the files of the world as
  they are at the call; \<^verbatim>\<open>stat\<close> of a missing file raises (\<^verbatim>\<open>FileNotFoundError\<close>).
\<close>

definition exists_call :: "string \<Rightarrow> bool prog" where
  "exists_call p = (\<lambda>s. (Inr (files (world s) p \<noteq> None), emit (Exists p) s))"

definition stat_st_size :: "string \<Rightarrow> nat prog" where
  "stat_st_size p = (\<lambda>s.
     case files (world s) p of
       None \<Rightarrow> (Inl (OtherException ''FileNotFoundError''), emit (Stat p) s)
     | Some n \<Rightarrow> (Inr n, emit (Stat p) s))"

text \<open>
  \<^verbatim>\<open>str.lower()\<close>. Characters are bytes here, and the letters A to Z are the only ones
  changed; no character outside ASCII has one of the letters the script compares with as
  its lowercase form, so the comparison of the script is decided as in Python.
\<close>

definition lower_char :: "char \<Rightarrow> char" where
  "lower_char c =
     (case map_of (zip ''ABCDEFGHIJKLMNOPQRSTUVWXYZ'' ''abcdefghijklmnopqrstuvwxyz'') c of
        Some d \<Rightarrow> d
      | None \<Rightarrow> c)"

definition lower :: "string \<Rightarrow> string" where
  "lower s = map lower_char s"

subsection \<open>The functions of the script\<close>

definition install_requirements :: "lib \<Rightarrow> pyval prog" where
  "install_requirements L =
     enter ''install_requirements''
      (block
        [print [S ''Installing required packages...''],
         os_system_call L ''pip install ultralytics coremltools'',
         print [I Check, S '' Requirements installed successfully'']]
        (ret PyNone))"

definition download_and_convert_yolov8_try :: "lib \<Rightarrow> pyval prog" where
  "download_and_convert_yolov8_try L =
     block
       [from_ultralytics_import_YOLO L,
        print [I Rocket, S '' Starting YOLOv8 to Core ML conversion...''],
        print [I Inbox, S '' Downloading YOLOv8n model...'']]
     (bind_prog (YOLO_call L ''yolov8n.pt'') (\<lambda>model.
      block
       [print [I Cycle, S '' Converting to Core ML format...''],
        export_call L model
          \<lparr>format = ''coreml'', imgsz = 640, simplify = True, nms = True,
           int8 = True, half = True, device = ''cpu''\<rparr>,
        print [I Check, S '' YOLOv8n Core ML model created successfully!'']]
     (let model_path = ''yolov8n.mlpackage'' in
      bind_prog (exists_call model_path) (\<lambda>found.
      if found then
        block
         [print [I Folder, S '' Model saved as: '', AbsPath model_path]]
        (bind_prog (stat_st_size model_path) (\<lambda>st_size.
         block
          [print [I Chart, S '' Model size: '', MiB st_size, S '' MB''],
           print [S nl, I Phone, S '' To add to your BatSight project:''],
           print [S ''1. Drag yolov8n.mlpackage into your Xcode project''],
           print [S ''2. Make sure 'Add to target' is checked for BatSight''],
           print [S ''3. The app will automatically use YOLOv8 when available'']]
         (ret PyTrue)))
      else
        block
         [print [I Cross, S '' Model file not found after conversion'']]
        (ret PyFalse)))))"

definition download_and_convert_yolov8 :: "lib \<Rightarrow> pyval prog" where
  "download_and_convert_yolov8 L =
     enter ''download_and_convert_yolov8''
      (try_except (download_and_convert_yolov8_try L) (\<lambda>e.
         if is_ImportError e then
           block
            [print [I Cross, S '' Import error: '', S (str e)],
             print [S ''Please run: pip install ultralytics coremltools'']]
           (ret PyFalse)
         else if is_Exception e then
           block
            [print [I Cross, S '' Conversion error: '', S (str e)]]
           (ret PyFalse)
         else raise e))"

text \<open>The dictionary \<^verbatim>\<open>models\<close>, in the order of its literal.\<close>

definition models :: "(string \<times> string) list" where
  "models =
     [(''yolov8n'', ''Nano (fastest, smallest)''),
      (''yolov8s'', ''Small (balanced)''),
      (''yolov8m'', ''Medium (more accurate)''),
      (''yolov8l'', ''Large (very accurate)''),
      (''yolov8x'', ''Extra Large (most accurate)'')]"

definition convert_different_sizes_try :: "lib \<Rightarrow> string \<Rightarrow> pyval prog" where
  "convert_different_sizes_try L model_name =
     block
       [from_ultralytics_import_YOLO L,
        print [I Cycle, S '' Converting '', S model_name, S ''...'']]
     (bind_prog (YOLO_call L (model_name @ ''.pt'')) (\<lambda>model.
      block
       [export_call L model
          \<lparr>format = ''coreml'', imgsz = 640, simplify = True, nms = True,
           int8 = True, half = True, device = ''cpu''\<rparr>]
     (let model_path = model_name @ ''.mlpackage'' in
      bind_prog (exists_call model_path) (\<lambda>found.
      if found then
        block
         [print [I Check, S '' '', S model_name, S ''.mlpackage created successfully!'']]
        (bind_prog (stat_st_size model_path) (\<lambda>st_size.
         block
          [print [I Chart, S '' Size: '', MiB st_size, S '' MB'']]
         (ret PyTrue)))
      else
        ret PyNone))))"

definition convert_different_sizes :: "lib \<Rightarrow> pyval prog" where
  "convert_different_sizes L =
     enter ''convert_different_sizes''
      (block
        [print [S nl, I Clipboard, S '' Available YOLOv8 model sizes:''],
         for_each models (\<lambda>(model_name, description).
           print [S ''  '', I Bullet, S '' '', S model_name, S '': '', S description])]
      (bind_prog
        (input [S nl, S ''Which model size would you like to convert? (n/s/m/l/x): ''])
        (\<lambda>answer.
         let choice = lower answer in
         if choice \<in> set [''n'', ''s'', ''m'', ''l'', ''x''] then
           (let model_name = ''yolov8'' @ choice in
            try_except (convert_different_sizes_try L model_name) (\<lambda>e.
              if is_Exception e then
                block
                 [print [I Cross, S '' Error converting '', S model_name, S '': '',
                         S (str e)]]
                (ret PyFalse)
              else raise e))
         else
           block
            [print [I Cross, S '' Invalid choice'']]
           (ret PyFalse))))"

definition report :: "pyval \<Rightarrow> pyval prog" where
  "report success =
     (if truthy success then
        block
         [print [S nl, I Party, S '' Conversion completed successfully!''],
          print [S ''Your BatSight app is ready to use YOLOv8!'']]
        (ret PyNone)
      else
        block
         [print [S nl, I Cross, S '' Conversion failed. Check the error messages above.'']]
        (ret PyNone))"

definition main :: "lib \<Rightarrow> pyval prog" where
  "main L =
     block
       [print [I Bat, S '' BatSight YOLOv8 Core ML Converter''],
        print [S (replicate 40 CHR ''='')],
        try_except
          (block [import_ultralytics_stmt L]
             (print [I Check, S '' Ultralytics already installed'']))
          (\<lambda>e. if is_ImportError e
                then bind_prog (install_requirements L) (\<lambda>_. ret ())
                else raise e),
        print [S nl, S ''What would you like to do?''],
        print [S ''1. Convert YOLOv8n (recommended for mobile)''],
        print [S ''2. Choose a different model size''],
        print [S ''3. Exit'']]
     (bind_prog (input [S nl, S ''Enter your choice (1-3): '']) (\<lambda>choice.
      if choice = ''1'' then
        bind_prog (download_and_convert_yolov8 L) report
      else if choice = ''2'' then
        bind_prog (convert_different_sizes L) report
      else if choice = ''3'' then
        block [print [I Wave, S '' Goodbye!'']] (ret PyNone)
      else
        block [print [I Cross, S '' Invalid choice'']] (ret PyNone)))"

text \<open>
  A run from a given world, with nothing done yet: \<open>run_on enc\<close> on a standard output
  that encodes the pictographs \<open>enc\<close> holds of, \<open>run\<close> on one that encodes them all, as
  UTF-8 does. A statement over \<open>run\<close> is a statement about such a standard output, on
  which no \<^verbatim>\<open>print\<close> of the script raises.
\<close>

definition run_on :: "(icon \<Rightarrow> bool) \<Rightarrow> 'a prog \<Rightarrow> world \<Rightarrow> (exn + 'a) \<times> state" where
  "run_on enc p w = p \<lparr>world = w, trace = [], encodes = enc\<rparr>"

definition run :: "'a prog \<Rightarrow> world \<Rightarrow> (exn + 'a) \<times> state" where
  "run p w = run_on (\<lambda>i. True) p w"

subsection \<open>Notions used in the statements\<close>

text \<open>The keyword arguments both export calls are expected to pass.\<close>

definition fixed_configuration :: export_args where
  "fixed_configuration =
     \<lparr>format = ''coreml'', imgsz = 640, simplify = True, nms = True,
      int8 = True, half = True, device = ''cpu''\<rparr>"

definition size_letters :: "string list" where
  "size_letters = [''n'', ''s'', ''m'', ''l'', ''x'']"


fun is_error_event :: "event \<Rightarrow> bool" where
  "is_error_event (Print t) = is_error_message t"
| "is_error_event e = False"

fun is_OsSystem :: "event \<Rightarrow> bool" where
  "is_OsSystem (OsSystem c) = True"
| "is_OsSystem e = False"

fun is_Print :: "event \<Rightarrow> bool" where
  "is_Print (Print t) = True"
| "is_Print e = False"



text \<open>
  The events a conversion can append to the trace: those of
  \<open>download_and_convert_yolov8\<close>, and those of the \<^verbatim>\<open>try\<close> statement of
  \<open>convert_different_sizes\<close> for a given model name.
\<close>

definition dac_event :: "event \<Rightarrow> bool" where
  "dac_event e =
     (e = Call ''download_and_convert_yolov8'' \<or> e = ImportYOLO \<or> is_Print e
      \<or> e = Load ''yolov8n.pt'' \<or> e = Export ''yolov8n.pt'' fixed_configuration
      \<or> e = Exists ''yolov8n.mlpackage'' \<or> e = Stat ''yolov8n.mlpackage'')"

definition selected_event :: "string \<Rightarrow> event \<Rightarrow> bool" where
  "selected_event model_name e =
     (e = ImportYOLO \<or> is_Print e
      \<or> e = Load (model_name @ ''.pt'')
      \<or> e = Export (model_name @ ''.pt'') fixed_configuration
      \<or> e = Exists (model_name @ ''.mlpackage'') \<or> e = Stat (model_name @ ''.mlpackage''))"

text \<open>
  \<open>emits_le Q n p\<close>: from any state, \<open>p\<close> only appends to the trace, and at most \<open>n\<close> of
  the events it appends satisfy \<open>Q\<close>.
\<close>

definition emits_le :: "(event \<Rightarrow> bool) \<Rightarrow> nat \<Rightarrow> 'a prog \<Rightarrow> bool" where
  "emits_le Q n p =
     (\<forall>s. \<exists>evs. trace (snd (p s)) = trace s @ evs \<and> length (filter Q evs) \<le> n)"

abbreviation silent :: "(event \<Rightarrow> bool) \<Rightarrow> 'a prog \<Rightarrow> bool" where
  "silent Q p \<equiv> emits_le Q 0 p"


text \<open>
  The two halves of \<open>main\<close> after its banner (the dependency check and the menu with its
  dispatch) and the \<^verbatim>\<open>try\<close> statement of \<open>convert_different_sizes\<close> for a chosen
  model name, named so that lemmas can speak about them; \<open>main_parts\<close> and
  \<open>sizes_accepted\<close> below show that they are the parts of the functions as defined above.
\<close>

definition main_check :: "lib \<Rightarrow> unit prog" where
  "main_check L =
     try_except
       (block [import_ultralytics_stmt L]
          (print [I Check, S '' Ultralytics already installed'']))
       (\<lambda>e. if is_ImportError e
             then bind_prog (install_requirements L) (\<lambda>_. ret ())
             else raise e)"

definition main_menu :: "lib \<Rightarrow> pyval prog" where
  "main_menu L =
     block
       [print [S nl, S ''What would you like to do?''],
        print [S ''1. Convert YOLOv8n (recommended for mobile)''],
        print [S ''2. Choose a different model size''],
        print [S ''3. Exit'']]
     (bind_prog (input [S nl, S ''Enter your choice (1-3): '']) (\<lambda>choice.
      if choice = ''1'' then
        bind_prog (download_and_convert_yolov8 L) report
      else if choice = ''2'' then
        bind_prog (convert_different_sizes L) report
      else if choice = ''3'' then
        block [print [I Wave, S '' Goodbye!'']] (ret PyNone)
      else
        block [print [I Cross, S '' Invalid choice'']] (ret PyNone)))"

definition convert_selected :: "lib \<Rightarrow> string \<Rightarrow> pyval prog" where
  "convert_selected L model_name =
     try_except (convert_different_sizes_try L model_name) (\<lambda>e.
       if is_Exception e then
         block
          [print [I Cross, S '' Error converting '', S model_name, S '': '', S (str e)]]
         (ret PyFalse)
       else raise e)"

text \<open>What the menu and the size prompt append to the trace before they read a line.\<close>

definition menu_events :: "event list" where
  "menu_events =
     [Print [S nl, S ''What would you like to do?''],
      Print [S ''1. Convert YOLOv8n (recommended for mobile)''],
      Print [S ''2. Choose a different model size''],
      Print [S ''3. Exit''],
      Input [S nl, S ''Enter your choice (1-3): '']]"

definition sizes_events :: "event list" where
  "sizes_events =
     [Call ''convert_different_sizes'',
      Print [S nl, I Clipboard, S '' Available YOLOv8 model sizes:''],
      Print [S ''  '', I Bullet, S '' '', S ''yolov8n'', S '': '', S ''Nano (fastest, smallest)''],
      Print [S ''  '', I Bullet, S '' '', S ''yolov8s'', S '': '', S ''Small (balanced)''],
      Print [S ''  '', I Bullet, S '' '', S ''yolov8m'', S '': '', S ''Medium (more accurate)''],
      Print [S ''  '', I Bullet, S '' '', S ''yolov8l'', S '': '', S ''Large (very accurate)''],
      Print [S ''  '', I Bullet, S '' '', S ''yolov8x'', S '': '',
             S ''Extra Large (most accurate)''],
      Input [S nl, S ''Which model size would you like to convert? (n/s/m/l/x): '']]"

subsection \<open>Example worlds\<close>

text \<open>
  The library is installed when its package file is there. \<open>world_ready\<close> has it and
  \<open>world_missing\<close> has no file at all; each has given lines on standard input.
\<close>

definition package_file :: string where
  "package_file = ''/usr/lib/python3/site-packages/ultralytics/__init__.py''"

definition world_ready :: "string list \<Rightarrow> world" where
  "world_ready ls = \<lparr>stdin = ls, files = [package_file \<mapsto> 1024]\<rparr>"

definition world_missing :: "string list \<Rightarrow> world" where
  "world_missing ls = \<lparr>stdin = ls, files = Map.empty\<rparr>"

text \<open>
  Importing raises \<open>ImportError\<close> when the package file is missing; the first import of
  an installed library writes its settings file.
\<close>

definition import_package :: "world \<Rightarrow> exn option \<times> world" where
  "import_package w =
     (if files w package_file = None
      then (Some (ImportError ''No module named ultralytics''), w)
      else (None, w\<lparr>files := (files w)(''/root/.config/Ultralytics/settings.json'' \<mapsto> 300)\<rparr>))"

definition import_name :: "world \<Rightarrow> exn option \<times> world" where
  "import_name w =
     (if files w package_file = None
      then (Some (ImportError ''No module named ultralytics''), w)
      else (None, w))"

text \<open>
  A library that works: the loader downloads the weights file, the export writes the
  package named after it. \<open>lib_legacy\<close> exports without error too, but writes a
  \<^verbatim>\<open>.mlmodel\<close> file instead of a package; \<open>lib_offline\<close> cannot download weights.
  With \<open>lib_pip\<close> the installer command puts the library in place.
\<close>

definition stem :: "string \<Rightarrow> string" where
  "stem weights = take (length weights - 3) weights"

definition lib_working :: lib where
  "lib_working =
     \<lparr>import_ultralytics = import_package, import_YOLO = import_name,
      os_system = (\<lambda>cmd w. w),
      YOLO = (\<lambda>weights w. (None, w\<lparr>files := (files w)(weights \<mapsto> 6549796)\<rparr>)),
      export = (\<lambda>weights args w.
        (None, w\<lparr>files := (files w)(stem weights @ ''.mlpackage'' \<mapsto> 4096)\<rparr>))\<rparr>"

definition lib_legacy :: lib where
  "lib_legacy =
     \<lparr>import_ultralytics = import_package, import_YOLO = import_name,
      os_system = (\<lambda>cmd w. w),
      YOLO = (\<lambda>weights w. (None, w\<lparr>files := (files w)(weights \<mapsto> 6549796)\<rparr>)),
      export = (\<lambda>weights args w.
        (None, w\<lparr>files := (files w)(stem weights @ ''.mlmodel'' \<mapsto> 3300000)\<rparr>))\<rparr>"

definition lib_offline :: lib where
  "lib_offline =
     \<lparr>import_ultralytics = import_package, import_YOLO = import_name,
      os_system = (\<lambda>cmd w. w),
      YOLO = (\<lambda>weights w. (Some (OtherException ''Download failure''), w)),
      export = (\<lambda>weights args w. (None, w))\<rparr>"

definition lib_pip :: lib where
  "lib_pip =
     \<lparr>import_ultralytics = import_package, import_YOLO = import_name,
      os_system = (\<lambda>cmd w. w\<lparr>files := (files w)(package_file \<mapsto> 1024)\<rparr>),
      YOLO = (\<lambda>weights w. (None, w\<lparr>files := (files w)(weights \<mapsto> 6549796)\<rparr>)),
      export = (\<lambda>weights args w.
        (None, w\<lparr>files := (files w)(stem weights @ ''.mlpackage'' \<mapsto> 4096)\<rparr>))\<rparr>"

section \<open>Properties\<close>

subsection \<open>Unfolding a run\<close>

lemma encodable_all [simp]: "encodable (\<lambda>i. True) t"
proof (induction t)
  case Nil
  show ?case by simp
next
  case (Cons f t)
  then show ?case by (cases f) simp_all
qed

lemma encodable_cross [simp]: "encodable enc (I Cross # t) = (enc Cross \<and> encodable enc t)"
  by simp

lemmas prog_simps = run_def run_on_def enter_def block_def seq_prog_def bind_prog_def try_except_def
  ret_def raise_def emit_def print_def input_def os_system_call_def import_ultralytics_stmt_def
  from_ultralytics_import_YOLO_def YOLO_call_def exists_call_def stat_st_size_def Let_def

lemmas dac_simps = download_and_convert_yolov8_def download_and_convert_yolov8_try_def prog_simps

lemmas example_simps = world_ready_def world_missing_def lib_working_def lib_legacy_def
  lib_offline_def lib_pip_def stem_def fixed_configuration_def package_file_def
  import_package_def import_name_def

subsection \<open>Bounds on the events of a program\<close>


lemma silent_mono: "silent Q p \<Longrightarrow> (\<And>e. Q' e \<Longrightarrow> Q e) \<Longrightarrow> silent Q' p"
proof -
  assume p: "silent Q p" and q: "\<And>e. Q' e \<Longrightarrow> Q e"
  show "silent Q' p"
    unfolding emits_le_def
  proof
    fix s
    from p obtain evs where e: "trace (snd (p s)) = trace s @ evs" "filter Q evs = []"
      unfolding emits_le_def by auto
    from e(2) q have "filter Q' evs = []"
      by (auto simp: filter_empty_conv)
    with e(1) show "\<exists>evs. trace (snd (p s)) = trace s @ evs \<and> length (filter Q' evs) \<le> 0"
      by auto
  qed
qed



lemma silent_from:
  assumes "silent Q p" and "e \<in> set (trace (snd (p s)))"
  shows "e \<in> set (trace s) \<or> \<not> Q e"
proof -
  from assms(1) obtain evs where e: "trace (snd (p s)) = trace s @ evs" "filter Q evs = []"
    unfolding emits_le_def by auto
  with assms(2) show ?thesis
    by (auto simp: filter_empty_conv)
qed

lemma silent_run_on:
  "silent Q p \<Longrightarrow> e \<in> set (trace (snd (run_on enc p w))) \<Longrightarrow> \<not> Q e"
  using silent_from [of Q p e "\<lparr>world = w, trace = [], encodes = enc\<rparr>"]
  by (simp add: run_on_def)

lemma silent_run: "silent Q p \<Longrightarrow> e \<in> set (trace (snd (run p w))) \<Longrightarrow> \<not> Q e"
  unfolding run_def by (rule silent_run_on)

lemma trace_grows: "emits_le Q n p \<Longrightarrow> e \<in> set (trace s) \<Longrightarrow> e \<in> set (trace (snd (p s)))"
  unfolding emits_le_def
proof -
  assume "\<forall>s. \<exists>evs. trace (snd (p s)) = trace s @ evs \<and> length (filter Q evs) \<le> n"
    and e: "e \<in> set (trace s)"
  then obtain evs where "trace (snd (p s)) = trace s @ evs"
    by blast
  with e show "e \<in> set (trace (snd (p s)))"
    by simp
qed

lemma emits_le_ret: "emits_le Q n (ret x)"
  by (simp add: emits_le_def ret_def)

lemma emits_le_raise: "emits_le Q n (raise e)"
  by (simp add: emits_le_def raise_def)

lemma emits_le_bind:
  assumes "emits_le Q a m" and "\<And>x. emits_le Q b (f x)"
  shows "emits_le Q (a + b) (bind_prog m f)"
  unfolding emits_le_def
proof
  fix s
  from assms(1) obtain evs
    where m: "trace (snd (m s)) = trace s @ evs" "length (filter Q evs) \<le> a"
    unfolding emits_le_def by blast
  show "\<exists>evs. trace (snd (bind_prog m f s)) = trace s @ evs \<and> length (filter Q evs) \<le> a + b"
  proof (cases "m s")
    case (Pair r s')
    show ?thesis
    proof (cases r)
      case (Inl e)
      with Pair m show ?thesis
        by (auto simp: bind_prog_def)
    next
      case (Inr x)
      from assms(2) obtain evs'
        where f: "trace (snd (f x s')) = trace s' @ evs'" "length (filter Q evs') \<le> b"
        unfolding emits_le_def by blast
      from Pair Inr m f have "trace (snd (bind_prog m f s)) = trace s @ (evs @ evs')"
        by (simp add: bind_prog_def)
      moreover from m f have "length (filter Q (evs @ evs')) \<le> a + b"
        by simp
      ultimately show ?thesis
        by blast
    qed
  qed
qed

lemma emits_le_try:
  assumes "emits_le Q a m" and "\<And>e. emits_le Q b (h e)"
  shows "emits_le Q (a + b) (try_except m h)"
  unfolding emits_le_def
proof
  fix s
  from assms(1) obtain evs
    where m: "trace (snd (m s)) = trace s @ evs" "length (filter Q evs) \<le> a"
    unfolding emits_le_def by blast
  show "\<exists>evs. trace (snd (try_except m h s)) = trace s @ evs \<and> length (filter Q evs) \<le> a + b"
  proof (cases "m s")
    case (Pair r s')
    show ?thesis
    proof (cases r)
      case (Inr x)
      with Pair m show ?thesis
        by (auto simp: try_except_def)
    next
      case (Inl e)
      from assms(2) obtain evs'
        where h: "trace (snd (h e s')) = trace s' @ evs'" "length (filter Q evs') \<le> b"
        unfolding emits_le_def by blast
      from Pair Inl m h have "trace (snd (try_except m h s)) = trace s @ (evs @ evs')"
        by (simp add: try_except_def)
      moreover from m h have "length (filter Q (evs @ evs')) \<le> a + b"
        by simp
      ultimately show ?thesis
        by blast
    qed
  qed
qed

lemma emits_le_seq:
  "emits_le Q a m \<Longrightarrow> emits_le Q b n \<Longrightarrow> emits_le Q (a + b) (seq_prog m n)"
  unfolding seq_prog_def by (rule emits_le_bind)

lemma emits_le_enter:
  assumes "\<not> Q (Call name)" and "emits_le Q n p"
  shows "emits_le Q n (enter name p)"
  unfolding emits_le_def
proof
  fix s :: state
  let ?s = "emit (Call name) s"
  from assms(2) obtain evs
    where p: "trace (snd (p ?s)) = trace ?s @ evs" "length (filter Q evs) \<le> n"
    unfolding emits_le_def by blast
  with assms(1) have "trace (snd (enter name p s)) = trace s @ (Call name # evs)
      \<and> length (filter Q (Call name # evs)) \<le> n"
    by (simp add: enter_def emit_def)
  then show "\<exists>evs. trace (snd (enter name p s)) = trace s @ evs \<and> length (filter Q evs) \<le> n"
    by blast
qed


lemma emits_le_if:
  "(b \<Longrightarrow> emits_le Q n p) \<Longrightarrow> (\<not> b \<Longrightarrow> emits_le Q n q) \<Longrightarrow> emits_le Q n (if b then p else q)"
  by simp

lemma emits_le_case_prod:
  "(\<And>a b. emits_le Q n (f a b)) \<Longrightarrow> emits_le Q n (case x of (a, b) \<Rightarrow> f a b)"
  by (cases x) simp

lemma emits_le_block_Nil: "emits_le Q n k \<Longrightarrow> emits_le Q n (block [] k)"
  by (simp add: block_def)

lemma emits_le_block_Cons:
  "silent Q m \<Longrightarrow> emits_le Q n (block ms k) \<Longrightarrow> emits_le Q n (block (m # ms) k)"
  using emits_le_seq [of Q 0 m n "block ms k"] by (simp add: block_def)



lemma silent_bind: "silent Q m \<Longrightarrow> (\<And>x. silent Q (f x)) \<Longrightarrow> silent Q (bind_prog m f)"
  using emits_le_bind [of Q 0 m 0 f] by simp

lemma silent_try: "silent Q m \<Longrightarrow> (\<And>e. silent Q (h e)) \<Longrightarrow> silent Q (try_except m h)"
  using emits_le_try [of Q 0 m 0 h] by simp

lemma silent_seq: "silent Q m \<Longrightarrow> silent Q n \<Longrightarrow> silent Q (seq_prog m n)"
  using emits_le_seq [of Q 0 m 0 n] by simp

lemma silent_for_each: "(\<And>x. silent Q (body x)) \<Longrightarrow> silent Q (for_each xs body)"
  by (induction xs) (simp_all add: emits_le_ret silent_seq)




text \<open>The calls that leave the script append one event each.\<close>

lemma silent_print: "\<not> Q (Print t) \<Longrightarrow> silent Q (print t)"
  by (simp add: emits_le_def print_def emit_def)

lemma silent_input: "\<not> Q (Input t) \<Longrightarrow> silent Q (input t)"
  by (simp add: emits_le_def input_def emit_def Let_def split: list.splits)


lemma silent_os_system: "\<not> Q (OsSystem c) \<Longrightarrow> silent Q (os_system_call L c)"
  by (simp add: emits_le_def os_system_call_def emit_def)

lemma silent_import: "\<not> Q ImportUltralytics \<Longrightarrow> silent Q (import_ultralytics_stmt L)"
  by (simp add: emits_le_def import_ultralytics_stmt_def emit_def
      split: option.splits prod.splits)

lemma silent_from_import: "\<not> Q ImportYOLO \<Longrightarrow> silent Q (from_ultralytics_import_YOLO L)"
  by (simp add: emits_le_def from_ultralytics_import_YOLO_def emit_def
      split: option.splits prod.splits)

lemma silent_export: "\<not> Q (Export x a) \<Longrightarrow> silent Q (export_call L (Model x) a)"
  by (simp add: emits_le_def emit_def split: option.splits prod.splits)


lemma silent_exists: "\<not> Q (Exists p) \<Longrightarrow> silent Q (exists_call p)"
  by (simp add: emits_le_def exists_call_def emit_def)

lemma silent_stat: "\<not> Q (Stat p) \<Longrightarrow> silent Q (stat_st_size p)"
  by (simp add: emits_le_def stat_st_size_def emit_def split: option.splits)

text \<open>The model that \<open>YOLO_call\<close> hands to the rest of the function is the one it loaded.\<close>

lemma emits_le_bind_YOLO:
  assumes "\<not> Q (Load x)" and "emits_le Q n (f (Model x))"
  shows "emits_le Q n (bind_prog (YOLO_call L x) f)"
  unfolding emits_le_def
proof
  fix s :: state
  obtain r w' where y: "YOLO L x (world s) = (r, w')"
    by (cases "YOLO L x (world s)")
  let ?s' = "(emit (Load x) s)\<lparr>world := w'\<rparr>"
  from assms(2) obtain evs
    where f: "trace (snd (f (Model x) ?s')) = trace ?s' @ evs" "length (filter Q evs) \<le> n"
    unfolding emits_le_def by blast
  show "\<exists>evs. trace (snd (bind_prog (YOLO_call L x) f s)) = trace s @ evs
          \<and> length (filter Q evs) \<le> n"
  proof (cases r)
    case None
    with y f assms(1) have "trace (snd (bind_prog (YOLO_call L x) f s)) = trace s @ (Load x # evs)
        \<and> length (filter Q (Load x # evs)) \<le> n"
      by (simp add: bind_prog_def YOLO_call_def emit_def)
    then show ?thesis
      by blast
  next
    case (Some e)
    with y assms(1) have "trace (snd (bind_prog (YOLO_call L x) f s)) = trace s @ [Load x]
        \<and> length (filter Q [Load x]) \<le> n"
      by (simp add: bind_prog_def YOLO_call_def emit_def)
    then show ?thesis
      by blast
  qed
qed

lemmas silent_intros = emits_le_bind_YOLO silent_bind silent_try silent_seq emits_le_block_Nil
  emits_le_block_Cons silent_for_each emits_le_if emits_le_case_prod emits_le_enter
  silent_print silent_input silent_os_system silent_import silent_from_import
  silent_export silent_exists silent_stat emits_le_ret emits_le_raise

subsection \<open>The encoding of standard output is never changed\<close>

























subsection \<open>The events of the two conversions\<close>

lemma dac_events: "silent (\<lambda>e. \<not> dac_event e) (download_and_convert_yolov8 L)"
  unfolding download_and_convert_yolov8_def download_and_convert_yolov8_try_def Let_def
  by (intro silent_intros) (simp_all add: dac_event_def fixed_configuration_def)

lemma selected_events: "silent (\<lambda>e. \<not> selected_event model_name e) (convert_selected L model_name)"
  unfolding convert_selected_def convert_different_sizes_try_def Let_def
  by (intro silent_intros) (simp_all add: selected_event_def fixed_configuration_def)



subsection \<open>The paths of the menu and of the size prompt\<close>

lemma main_parts:
  "main L = block [print [I Bat, S '' BatSight YOLOv8 Core ML Converter''],
                   print [S (replicate 40 CHR ''='')],
                   main_check L] (main_menu L)"
  by (simp add: main_def main_check_def main_menu_def block_def)

lemma sizes_parts:
  "convert_different_sizes L =
     enter ''convert_different_sizes''
      (block
        [print [S nl, I Clipboard, S '' Available YOLOv8 model sizes:''],
         for_each models (\<lambda>(model_name, description).
           print [S ''  '', I Bullet, S '' '', S model_name, S '': '', S description])]
      (bind_prog
        (input [S nl, S ''Which model size would you like to convert? (n/s/m/l/x): ''])
        (\<lambda>answer.
         if lower answer \<in> set size_letters then
           convert_selected L (''yolov8'' @ lower answer)
         else
           block [print [I Cross, S '' Invalid choice'']] (ret PyFalse))))"
  unfolding convert_different_sizes_def convert_selected_def size_letters_def Let_def
  by (rule refl)

lemma main_check_installed:
  "import_ultralytics L (world s) = (None, w') \<Longrightarrow> encodes s = (\<lambda>i. True) \<Longrightarrow>
   main_check L s =
     (Inr (), s\<lparr>world := w', trace := trace s @
        [ImportUltralytics, Print [I Check, S '' Ultralytics already installed'']]\<rparr>)"
  by (simp add: main_check_def prog_simps)

lemma main_check_missing:
  "import_ultralytics L (world s) = (Some (ImportError m), w') \<Longrightarrow>
   encodes s = (\<lambda>i. True) \<Longrightarrow>
   main_check L s =
     (Inr (), s\<lparr>world := os_system L ''pip install ultralytics coremltools'' w',
               trace := trace s @
        [ImportUltralytics, Call ''install_requirements'',
         Print [S ''Installing required packages...''],
         OsSystem ''pip install ultralytics coremltools'',
         Print [I Check, S '' Requirements installed successfully'']]\<rparr>)"
  by (simp add: main_check_def install_requirements_def prog_simps)

lemma main_check_broken:
  "import_ultralytics L (world s) = (Some e, w') \<Longrightarrow> \<not> is_ImportError e \<Longrightarrow>
   main_check L s = (Inl e, s\<lparr>world := w', trace := trace s @ [ImportUltralytics]\<rparr>)"
  by (simp add: main_check_def prog_simps)




lemma main_menu_3:
  "stdin (world s) = ''3'' # rest \<Longrightarrow> encodes s = (\<lambda>i. True) \<Longrightarrow>
   main_menu L s =
     (Inr PyNone, s\<lparr>world := (world s)\<lparr>stdin := rest\<rparr>,
                   trace := trace s @ menu_events @ [Print [I Wave, S '' Goodbye!'']]\<rparr>)"
  by (simp add: main_menu_def menu_events_def prog_simps)



lemma sizes_accepted:
  "stdin (world s) = a # rest \<Longrightarrow> lower a \<in> set size_letters \<Longrightarrow>
   encodes s = (\<lambda>i. True) \<Longrightarrow>
   convert_different_sizes L s =
     convert_selected L (''yolov8'' @ lower a)
       (s\<lparr>trace := trace s @ sizes_events, world := (world s)\<lparr>stdin := rest\<rparr>\<rparr>)"
  by (simp add: convert_different_sizes_def convert_selected_def sizes_events_def models_def
      size_letters_def prog_simps)

lemma sizes_rejected:
  "stdin (world s) = a # rest \<Longrightarrow> lower a \<notin> set size_letters \<Longrightarrow>
   encodes s = (\<lambda>i. True) \<Longrightarrow>
   convert_different_sizes L s =
     (Inr PyFalse, s\<lparr>world := (world s)\<lparr>stdin := rest\<rparr>,
                    trace := trace s @ sizes_events @ [Print [I Cross, S '' Invalid choice'']]\<rparr>)"
  by (simp add: convert_different_sizes_def sizes_events_def models_def size_letters_def prog_simps)

subsection \<open>The package check of the fixed-size conversion\<close>



subsection \<open>Exceptions of the fixed-size conversion\<close>









subsection \<open>The size conversion when the package is missing\<close>

text \<open>
  Where failures are reported: when \<open>download_and_convert_yolov8\<close> returns, it returns
  \<open>True\<close>, or it has printed an error message and returns \<open>False\<close>; the \<^verbatim>\<open>try\<close>
  statement of \<open>convert_different_sizes\<close> has printed an error message when it returns
  \<open>False\<close>, and it returns \<open>None\<close> exactly when import, load and export succeed and the
  package is not there.
\<close>

lemma dac_failure_is_reported:
  assumes "fst (run (download_and_convert_yolov8 L) w) = Inr v"
  shows "v = PyTrue
   \<or> v = PyFalse \<and> list_ex is_error_event (trace (snd (run (download_and_convert_yolov8 L) w)))"
proof -
  obtain r0 w0 where i: "import_YOLO L w = (r0, w0)"
    by (cases "import_YOLO L w")
  obtain r1 w1 where l: "YOLO L ''yolov8n.pt'' w0 = (r1, w1)"
    by (cases "YOLO L ''yolov8n.pt'' w0")
  obtain r2 w2 where x: "export L ''yolov8n.pt'' fixed_configuration w1 = (r2, w2)"
    by (cases "export L ''yolov8n.pt'' fixed_configuration w1")
  from assms i l x show ?thesis
    by (cases r0; cases r1; cases r2; cases "files w2 ''yolov8n.mlpackage''")
      (auto simp: dac_simps fixed_configuration_def is_error_message_def split: if_splits)
qed

lemma selected_failure_is_reported:
  assumes "encodes s = (\<lambda>i. True)" and "fst (convert_selected L n s) = Inr PyFalse"
  shows "list_ex is_error_event (trace (snd (convert_selected L n s)))"
proof -
  obtain r0 w0 where i: "import_YOLO L (world s) = (r0, w0)"
    by (cases "import_YOLO L (world s)")
  obtain r1 w1 where l: "YOLO L (n @ ''.pt'') w0 = (r1, w1)"
    by (cases "YOLO L (n @ ''.pt'') w0")
  obtain r2 w2 where x: "export L (n @ ''.pt'') fixed_configuration w1 = (r2, w2)"
    by (cases "export L (n @ ''.pt'') fixed_configuration w1")
  from assms i l x show ?thesis
    by (cases r0; cases r1; cases r2; cases "files w2 (n @ ''.mlpackage'')")
      (auto simp: convert_selected_def convert_different_sizes_try_def prog_simps
        fixed_configuration_def is_error_message_def split: if_splits)
qed

lemma selected_silent_failure:
  assumes "encodes s = (\<lambda>i. True)"
  shows "fst (convert_selected L n s) = Inr PyNone \<longleftrightarrow>
   fst (import_YOLO L (world s)) = None
   \<and> fst (YOLO L (n @ ''.pt'') (snd (import_YOLO L (world s)))) = None
   \<and> fst (export L (n @ ''.pt'') fixed_configuration
            (snd (YOLO L (n @ ''.pt'') (snd (import_YOLO L (world s)))))) = None
   \<and> files (snd (export L (n @ ''.pt'') fixed_configuration
                   (snd (YOLO L (n @ ''.pt'') (snd (import_YOLO L (world s)))))))
        (n @ ''.mlpackage'') = None"
proof -
  obtain r0 w0 where i: "import_YOLO L (world s) = (r0, w0)"
    by (cases "import_YOLO L (world s)")
  obtain r1 w1 where l: "YOLO L (n @ ''.pt'') w0 = (r1, w1)"
    by (cases "YOLO L (n @ ''.pt'') w0")
  obtain r2 w2 where x: "export L (n @ ''.pt'') fixed_configuration w1 = (r2, w2)"
    by (cases "export L (n @ ''.pt'') fixed_configuration w1")
  from assms i l x show ?thesis
    by (cases r0; cases r1; cases r2; cases "files w2 (n @ ''.mlpackage'')")
      (auto simp: convert_selected_def convert_different_sizes_try_def prog_simps
        fixed_configuration_def split: if_splits)
qed

text \<open>
  C1. Every failure of a conversion is to print a console error message and return
  \<open>False\<close>. In \<open>convert_different_sizes\<close> the \<^verbatim>\<open>if model_path.exists()\<close> has no
  \<^verbatim>\<open>else\<close>: when the export returns and the package of the chosen size is not there,
  the function falls off its end. With a library that exports to another file name and
  the answer \<^verbatim>\<open>s\<close>, the function returns \<open>None\<close> and prints no error message; \<open>main\<close>
  then reports a failure and points to error messages above that were never printed.
\<close>

theorem size_conversion_without_package:
  "fst (run (convert_different_sizes lib_legacy) (world_ready [''s''])) = Inr PyNone
   \<and> Export ''yolov8s.pt'' fixed_configuration
       \<in> set (trace (snd (run (convert_different_sizes lib_legacy) (world_ready [''s'']))))
   \<and> files (world (snd (run (convert_different_sizes lib_legacy) (world_ready [''s'']))))
       ''yolov8s.mlpackage'' = None
   \<and> filter is_error_event
       (trace (snd (run (convert_different_sizes lib_legacy) (world_ready [''s''])))) = []
   \<and> filter is_error_event (trace (snd (run (main lib_legacy) (world_ready [''2'', ''s'']))))
       = [Print [S nl, I Cross, S '' Conversion failed. Check the error messages above.'']]"
  by (simp add: main_def report_def convert_different_sizes_def convert_different_sizes_try_def
      models_def lower_def lower_char_def is_error_message_def example_simps prog_simps)

subsection \<open>The arguments of the export\<close>

text \<open>
  C3. Every export invocation, in both \<open>download_and_convert_yolov8\<close> and
  \<open>convert_different_sizes\<close> (and so in \<open>main\<close>), passes the same fixed keyword
  configuration, whatever the user typed and whatever the world does; only the weights
  file of the exported model varies, over the five sizes.
\<close>

theorem export_arguments_are_fixed:
  "(Export x a \<in> set (trace (snd (run (download_and_convert_yolov8 L) w))) \<longrightarrow>
      a = fixed_configuration \<and> x = ''yolov8n.pt'')
   \<and> (Export x a \<in> set (trace (snd (run (convert_different_sizes L) w))) \<longrightarrow>
      a = fixed_configuration \<and> x \<in> set (map (\<lambda>c. ''yolov8'' @ c @ ''.pt'') size_letters))
   \<and> (Export x a \<in> set (trace (snd (run (main L) w))) \<longrightarrow> a = fixed_configuration)"
proof (intro conjI impI)
  let ?bad = "\<lambda>e. case e of Export x a \<Rightarrow> a \<noteq> fixed_configuration | _ \<Rightarrow> False"
  have dac: "silent ?bad (download_and_convert_yolov8 L)" for L
    by (rule silent_mono [OF dac_events]) (auto simp: dac_event_def split: event.splits)
  have sel: "silent ?bad (convert_selected L n)" for L n
    by (rule silent_mono [OF selected_events]) (auto simp: selected_event_def split: event.splits)
  have sizes: "silent ?bad (convert_different_sizes L)" for L
    unfolding sizes_parts
    by (intro silent_intros sel) simp_all
  have main: "silent ?bad (main L)"
    unfolding main_def install_requirements_def report_def
    by (intro silent_intros dac sizes) simp_all
  {
    assume "Export x a \<in> set (trace (snd (run (download_and_convert_yolov8 L) w)))"
    from silent_run [OF dac_events this]
    show "a = fixed_configuration" and "x = ''yolov8n.pt''"
      by (simp_all add: dac_event_def)
  }
  {
    assume "Export x a \<in> set (trace (snd (run (main L) w)))"
    from silent_run [OF main this]
    show "a = fixed_configuration"
      by simp
  }
  let ?other = "\<lambda>e. case e of Export x a \<Rightarrow>
      a \<noteq> fixed_configuration \<or> x \<notin> set (map (\<lambda>c. ''yolov8'' @ c @ ''.pt'') size_letters)
    | _ \<Rightarrow> False"
  have sel': "silent ?other (convert_selected L (''yolov8'' @ c))" if "c \<in> set size_letters" for c
    using that
    by (intro silent_mono [OF selected_events]) (auto simp: selected_event_def split: event.splits)
  have sizes': "silent ?other (convert_different_sizes L)"
    unfolding sizes_parts
    by (intro silent_intros sel') simp_all
  {
    assume "Export x a \<in> set (trace (snd (run (convert_different_sizes L) w)))"
    from silent_run [OF sizes' this]
    show "a = fixed_configuration"
      and "x \<in> set (map (\<lambda>c. ''yolov8'' @ c @ ''.pt'') size_letters)"
      by simp_all
  }
qed

theorem export_arguments_are_fixed_witness:
  "Export ''yolov8n.pt'' fixed_configuration
     \<in> set (trace (snd (run (download_and_convert_yolov8 lib_working) (world_ready []))))
   \<and> Export ''yolov8s.pt'' fixed_configuration
     \<in> set (trace (snd (run (convert_different_sizes lib_working) (world_ready [''S'']))))
   \<and> ''yolov8s.pt'' \<in> set (map (\<lambda>c. ''yolov8'' @ c @ ''.pt'') size_letters)
   \<and> Export ''yolov8x.pt'' fixed_configuration
     \<in> set (trace (snd (run (main lib_working) (world_ready [''2'', ''x'']))))"
proof -
  have a: "Export ''yolov8n.pt'' fixed_configuration
      \<in> set (trace (snd (run (download_and_convert_yolov8 lib_working) (world_ready []))))"
    by (simp add: dac_simps example_simps)
  have b: "Export ''yolov8s.pt'' fixed_configuration
     \<in> set (trace (snd (run (convert_different_sizes lib_working) (world_ready [''S'']))))"
    by (simp add: convert_different_sizes_def convert_different_sizes_try_def
        models_def lower_def lower_char_def example_simps prog_simps)
  have c: "Export ''yolov8x.pt'' fixed_configuration
     \<in> set (trace (snd (run (main lib_working) (world_ready [''2'', ''x'']))))"
    by (simp add: main_def report_def convert_different_sizes_def convert_different_sizes_try_def
        models_def lower_def lower_char_def example_simps prog_simps)
  from b export_arguments_are_fixed
    [of "''yolov8s.pt''" fixed_configuration lib_working "world_ready [''S'']"]
  have "''yolov8s.pt'' \<in> set (map (\<lambda>c. ''yolov8'' @ c @ ''.pt'') size_letters)"
    by blast
  with a b c show ?thesis
    by blast
qed

subsection \<open>The dependency check\<close>

lemma main_run:
  "run (main L) w =
     bind_prog (main_check L) (\<lambda>_. main_menu L)
       \<lparr>world = w, trace = [Print [I Bat, S '' BatSight YOLOv8 Core ML Converter''],
                             Print [S (replicate 40 CHR ''='')]],
        encodes = (\<lambda>i. True)\<rparr>"
  by (simp add: main_parts prog_simps)

text \<open>The states in which \<open>main\<close> shows its menu, after either outcome of the check.\<close>

lemma main_run_installed:
  assumes "import_ultralytics L w = (None, w')"
  shows "run (main L) w =
     main_menu L
       \<lparr>world = w', trace = [Print [I Bat, S '' BatSight YOLOv8 Core ML Converter''],
          Print [S (replicate 40 CHR ''='')], ImportUltralytics,
          Print [I Check, S '' Ultralytics already installed'']],
        encodes = (\<lambda>i. True)\<rparr>"
  using assms by (simp add: main_run bind_prog_def main_check_installed [where w' = w'])

lemma main_run_missing:
  assumes "import_ultralytics L w = (Some (ImportError m), w')"
  shows "run (main L) w =
     main_menu L
       \<lparr>world = os_system L ''pip install ultralytics coremltools'' w',
        trace = [Print [I Bat, S '' BatSight YOLOv8 Core ML Converter''],
          Print [S (replicate 40 CHR ''='')], ImportUltralytics,
          Call ''install_requirements'',
          Print [S ''Installing required packages...''],
          OsSystem ''pip install ultralytics coremltools'',
          Print [I Check, S '' Requirements installed successfully'']],
        encodes = (\<lambda>i. True)\<rparr>"
  using assms
  by (simp add: main_run bind_prog_def main_check_missing [where w' = w' and m = m])

lemma main_run_broken:
  assumes "import_ultralytics L w = (Some e, w')" and "\<not> is_ImportError e"
  shows "run (main L) w =
     (Inl e,
      \<lparr>world = w', trace = [Print [I Bat, S '' BatSight YOLOv8 Core ML Converter''],
          Print [S (replicate 40 CHR ''='')], ImportUltralytics],
       encodes = (\<lambda>i. True)\<rparr>)"
  using assms
  by (simp add: main_run bind_prog_def main_check_broken [where w' = w' and e = e])

lemma menu_no_install:
  "silent (\<lambda>e. is_OsSystem e \<or> e = Call ''install_requirements'') (main_menu L)"
proof -
  let ?Q = "\<lambda>e. is_OsSystem e \<or> e = Call ''install_requirements''"
  have dac: "silent ?Q (download_and_convert_yolov8 L)"
    by (rule silent_mono [OF dac_events]) (auto simp: dac_event_def elim: is_OsSystem.elims(2))
  have sel: "silent ?Q (convert_selected L n)" for n
    by (rule silent_mono [OF selected_events])
      (auto simp: selected_event_def elim: is_OsSystem.elims(2))
  have sizes: "silent ?Q (convert_different_sizes L)"
    unfolding sizes_parts
    by (intro silent_intros sel) simp_all
  show ?thesis
    unfolding main_menu_def report_def
    by (intro silent_intros dac sizes) simp_all
qed

text \<open>
  C6. \<open>main\<close> invokes \<open>install_requirements\<close> if and only if importing the library
  raises \<open>ImportError\<close>, and the installer command runs in that case only; when the
  import succeeds, \<open>main\<close> prints the already-installed message.
\<close>

theorem installation_iff_import_error:
  "(Call ''install_requirements'' \<in> set (trace (snd (run (main L) w)))
      \<longleftrightarrow> (\<exists>m. fst (import_ultralytics L w) = Some (ImportError m)))
   \<and> (OsSystem c \<in> set (trace (snd (run (main L) w)))
      \<longleftrightarrow> c = ''pip install ultralytics coremltools''
          \<and> (\<exists>m. fst (import_ultralytics L w) = Some (ImportError m)))
   \<and> (fst (import_ultralytics L w) = None \<longrightarrow>
        Print [I Check, S '' Ultralytics already installed'']
          \<in> set (trace (snd (run (main L) w))))"
proof -
  obtain r w' where i: "import_ultralytics L w = (r, w')"
    by (cases "import_ultralytics L w")
  show ?thesis
  proof (cases r)
    case None
    let ?s = "\<lparr>world = w', trace = [Print [I Bat, S '' BatSight YOLOv8 Core ML Converter''],
      Print [S (replicate 40 CHR ''='')], ImportUltralytics,
      Print [I Check, S '' Ultralytics already installed'']],
      encodes = (\<lambda>i. True)\<rparr>"
    from None i have r: "run (main L) w = main_menu L ?s"
      by (simp add: main_run_installed)
    have "Print [I Check, S '' Ultralytics already installed'']
        \<in> set (trace (snd (main_menu L ?s)))"
      by (rule trace_grows [OF menu_no_install]) simp
    moreover have "OsSystem c \<notin> set (trace (snd (main_menu L ?s)))"
      using silent_from [OF menu_no_install, of "OsSystem c" L ?s] by auto
    moreover have "Call ''install_requirements'' \<notin> set (trace (snd (main_menu L ?s)))"
      using silent_from [OF menu_no_install, of "Call ''install_requirements''" L ?s] by auto
    ultimately show ?thesis
      using None i r by simp
  next
    case (Some e)
    show ?thesis
    proof (cases e)
      case (ImportError m)
      let ?s = "\<lparr>world = os_system L ''pip install ultralytics coremltools'' w',
        trace = [Print [I Bat, S '' BatSight YOLOv8 Core ML Converter''],
          Print [S (replicate 40 CHR ''='')], ImportUltralytics,
          Call ''install_requirements'',
          Print [S ''Installing required packages...''],
          OsSystem ''pip install ultralytics coremltools'',
          Print [I Check, S '' Requirements installed successfully'']],
        encodes = (\<lambda>i. True)\<rparr>"
      from Some ImportError i have r: "run (main L) w = main_menu L ?s"
        by (simp add: main_run_missing)
      have "Call ''install_requirements'' \<in> set (trace (snd (main_menu L ?s)))"
        by (rule trace_grows [OF menu_no_install]) simp
      moreover have "OsSystem ''pip install ultralytics coremltools''
          \<in> set (trace (snd (main_menu L ?s)))"
        by (rule trace_grows [OF menu_no_install]) simp
      moreover have "c = ''pip install ultralytics coremltools''"
        if "OsSystem c \<in> set (trace (snd (main_menu L ?s)))"
        using silent_from [OF menu_no_install that] by auto
      ultimately show ?thesis
        using Some ImportError i r by auto
    next
      case (EOFError m)
      with Some i show ?thesis
        by (simp add: main_run_broken [where w' = w'])
    next
      case (OtherException m)
      with Some i show ?thesis
        by (simp add: main_run_broken [where w' = w'])
    next
      case (NonException m)
      with Some i show ?thesis
        by (simp add: main_run_broken [where w' = w'])
    qed
  qed
qed

theorem installation_iff_import_error_witness:
  "fst (import_ultralytics lib_pip (world_ready [''3''])) = None
   \<and> Print [I Check, S '' Ultralytics already installed'']
       \<in> set (trace (snd (run (main lib_pip) (world_ready [''3'']))))
   \<and> OsSystem ''pip install ultralytics coremltools''
       \<notin> set (trace (snd (run (main lib_pip) (world_ready [''3'']))))
   \<and> fst (import_ultralytics lib_pip (world_missing [''3'']))
       = Some (ImportError ''No module named ultralytics'')
   \<and> OsSystem ''pip install ultralytics coremltools''
       \<in> set (trace (snd (run (main lib_pip) (world_missing [''3'']))))"
proof -
  have a: "fst (import_ultralytics lib_pip (world_ready [''3''])) = None"
    and b: "fst (import_ultralytics lib_pip (world_missing [''3'']))
              = Some (ImportError ''No module named ultralytics'')"
    by (simp_all add: example_simps)
  from a b
    installation_iff_import_error
      [of lib_pip "world_ready [''3'']" "''pip install ultralytics coremltools''"]
    installation_iff_import_error
      [of lib_pip "world_missing [''3'']" "''pip install ultralytics coremltools''"]
  show ?thesis
    by simp
qed

subsection \<open>One dispatch per run\<close>

lemmas main_simps = main_def report_def install_requirements_def convert_different_sizes_def
  convert_different_sizes_try_def models_def lower_def lower_char_def dac_simps example_simps





















subsection \<open>The exit choice\<close>

text \<open>
  C2, as stated: given the menu choice \<^verbatim>\<open>3\<close> on standard input, \<open>main\<close> prints a goodbye
  message and returns without any conversion, and no export call or filesystem write
  occurs. The last part fails when the library is not installed: the dependency check
  runs the installer before the menu is shown, and the installer writes files. Here the
  only line on standard input is \<^verbatim>\<open>3\<close>, the run ends with the goodbye message, and a
  file that was not there before the run is there after it.
\<close>

theorem exit_choice_after_installation:
  "stdin (world_missing [''3'']) = [''3'']
   \<and> fst (run (main lib_pip) (world_missing [''3''])) = Inr PyNone
   \<and> last (trace (snd (run (main lib_pip) (world_missing [''3''])))) = Print [I Wave, S '' Goodbye!'']
   \<and> OsSystem ''pip install ultralytics coremltools''
       \<in> set (trace (snd (run (main lib_pip) (world_missing [''3'']))))
   \<and> files (world_missing [''3''])
       ''/usr/lib/python3/site-packages/ultralytics/__init__.py'' = None
   \<and> files (world (snd (run (main lib_pip) (world_missing [''3'']))))
       ''/usr/lib/python3/site-packages/ultralytics/__init__.py'' = Some 1024"
  by (simp add: main_simps)

text \<open>
  C2, amended. Let \<open>w'\<close> be the world in which \<open>main\<close> shows its menu: the world the import
  of the library left when it succeeded, or, when it raised \<open>ImportError\<close>, the world the
  installer left after it. Both the import and the installer run code from outside the
  program and may have written files by then. When the line read at the menu is \<^verbatim>\<open>3\<close>,
  \<open>main\<close>, on a standard output that encodes the pictographs printed, prints the goodbye
  message last and returns \<open>None\<close>; neither conversion
  function is entered, the model class is not imported, no model is loaded, no export is
  called, and nothing is written after the menu is shown: the run ends in \<open>w'\<close>, with the
  files of \<open>w'\<close>, less the line read.
\<close>

theorem exit_choice_performs_no_conversion:
  assumes "import_ultralytics L w = (None, w')
      \<or> (\<exists>m w0. import_ultralytics L w = (Some (ImportError m), w0)
            \<and> w' = os_system L ''pip install ultralytics coremltools'' w0)"
    and "stdin w' = ''3'' # rest"
  shows "fst (run (main L) w) = Inr PyNone
       \<and> last (trace (snd (run (main L) w))) = Print [I Wave, S '' Goodbye!'']
       \<and> Call ''download_and_convert_yolov8'' \<notin> set (trace (snd (run (main L) w)))
       \<and> Call ''convert_different_sizes'' \<notin> set (trace (snd (run (main L) w)))
       \<and> ImportYOLO \<notin> set (trace (snd (run (main L) w)))
       \<and> Load p \<notin> set (trace (snd (run (main L) w)))
       \<and> Export p a \<notin> set (trace (snd (run (main L) w)))
       \<and> world (snd (run (main L) w)) = w'\<lparr>stdin := rest\<rparr>
       \<and> files (world (snd (run (main L) w))) = files w'"
  using assms(1)
proof
  assume "import_ultralytics L w = (None, w')"
  from main_run_installed [OF this] assms(2) show ?thesis
    by (simp add: main_menu_3 [where rest = rest] menu_events_def)
next
  assume "\<exists>m w0. import_ultralytics L w = (Some (ImportError m), w0)
            \<and> w' = os_system L ''pip install ultralytics coremltools'' w0"
  then obtain m w0 where i: "import_ultralytics L w = (Some (ImportError m), w0)"
    and w': "w' = os_system L ''pip install ultralytics coremltools'' w0"
    by blast
  from main_run_missing [OF i] assms(2) w' show ?thesis
    by (simp add: main_menu_3 [where rest = rest] menu_events_def)
qed

theorem exit_choice_performs_no_conversion_witness:
  "import_ultralytics lib_working (world_ready [''3'', ''1''])
     = (None, \<lparr>stdin = [''3'', ''1''],
               files = [package_file \<mapsto> 1024, ''/root/.config/Ultralytics/settings.json'' \<mapsto> 300]\<rparr>)
   \<and> fst (run (main lib_working) (world_ready [''3'', ''1''])) = Inr PyNone
   \<and> world (snd (run (main lib_working) (world_ready [''3'', ''1''])))
       = \<lparr>stdin = [''1''],
          files = [package_file \<mapsto> 1024, ''/root/.config/Ultralytics/settings.json'' \<mapsto> 300]\<rparr>
   \<and> import_ultralytics lib_pip (world_missing [''3''])
       = (Some (ImportError ''No module named ultralytics''), world_missing [''3''])
   \<and> stdin (os_system lib_pip ''pip install ultralytics coremltools'' (world_missing [''3'']))
       = ''3'' # []
   \<and> last (trace (snd (run (main lib_pip) (world_missing [''3''])))) = Print [I Wave, S '' Goodbye!'']"
proof -
  let ?wr = "\<lparr>stdin = [''3'', ''1''],
               files = [package_file \<mapsto> 1024, ''/root/.config/Ultralytics/settings.json'' \<mapsto> 300]\<rparr>"
  let ?wp = "os_system lib_pip ''pip install ultralytics coremltools'' (world_missing [''3''])"
  have i: "import_ultralytics lib_working (world_ready [''3'', ''1'']) = (None, ?wr)"
    by (simp add: example_simps)
  have j: "import_ultralytics lib_pip (world_missing [''3''])
       = (Some (ImportError ''No module named ultralytics''), world_missing [''3''])"
    by (simp add: example_simps)
  have a: "import_ultralytics lib_working (world_ready [''3'', ''1'']) = (None, ?wr)
      \<or> (\<exists>m w0. import_ultralytics lib_working (world_ready [''3'', ''1''])
                   = (Some (ImportError m), w0)
            \<and> ?wr = os_system lib_working ''pip install ultralytics coremltools'' w0)"
    using i ..
  have b: "stdin ?wr = ''3'' # [''1'']"
    by simp
  have c: "import_ultralytics lib_pip (world_missing [''3'']) = (None, ?wp)
      \<or> (\<exists>m w0. import_ultralytics lib_pip (world_missing [''3''])
                   = (Some (ImportError m), w0)
            \<and> ?wp = os_system lib_pip ''pip install ultralytics coremltools'' w0)"
    using j by blast
  have d: "stdin ?wp = ''3'' # []"
    by (simp add: example_simps)
  from exit_choice_performs_no_conversion [OF a b] exit_choice_performs_no_conversion [OF c d]
    i j d
  show ?thesis
    by simp
qed

subsection \<open>The size prompt\<close>

lemma lower_char_unfold:
  "lower_char c =
    (if c = CHR ''A'' then CHR ''a'' else if c = CHR ''B'' then CHR ''b''
     else if c = CHR ''C'' then CHR ''c'' else if c = CHR ''D'' then CHR ''d''
     else if c = CHR ''E'' then CHR ''e'' else if c = CHR ''F'' then CHR ''f''
     else if c = CHR ''G'' then CHR ''g'' else if c = CHR ''H'' then CHR ''h''
     else if c = CHR ''I'' then CHR ''i'' else if c = CHR ''J'' then CHR ''j''
     else if c = CHR ''K'' then CHR ''k'' else if c = CHR ''L'' then CHR ''l''
     else if c = CHR ''M'' then CHR ''m'' else if c = CHR ''N'' then CHR ''n''
     else if c = CHR ''O'' then CHR ''o'' else if c = CHR ''P'' then CHR ''p''
     else if c = CHR ''Q'' then CHR ''q'' else if c = CHR ''R'' then CHR ''r''
     else if c = CHR ''S'' then CHR ''s'' else if c = CHR ''T'' then CHR ''t''
     else if c = CHR ''U'' then CHR ''u'' else if c = CHR ''V'' then CHR ''v''
     else if c = CHR ''W'' then CHR ''w'' else if c = CHR ''X'' then CHR ''x''
     else if c = CHR ''Y'' then CHR ''y'' else if c = CHR ''Z'' then CHR ''z''
     else c)"
  by (simp add: lower_char_def)

lemma lower_char_letters:
  "lower_char c = CHR ''n'' \<longleftrightarrow> c = CHR ''n'' \<or> c = CHR ''N''"
  "lower_char c = CHR ''s'' \<longleftrightarrow> c = CHR ''s'' \<or> c = CHR ''S''"
  "lower_char c = CHR ''m'' \<longleftrightarrow> c = CHR ''m'' \<or> c = CHR ''M''"
  "lower_char c = CHR ''l'' \<longleftrightarrow> c = CHR ''l'' \<or> c = CHR ''L''"
  "lower_char c = CHR ''x'' \<longleftrightarrow> c = CHR ''x'' \<or> c = CHR ''X''"
  unfolding lower_char_unfold by (simp_all split: if_split)

lemma lower_single: "lower a = [d] \<longleftrightarrow> (\<exists>c. a = [c] \<and> lower_char c = d)"
  by (cases a) (auto simp: lower_def)

lemma lower_letter_cases:
  "lower a = ''n'' \<longleftrightarrow> a = ''n'' \<or> a = ''N''"
  "lower a = ''s'' \<longleftrightarrow> a = ''s'' \<or> a = ''S''"
  "lower a = ''m'' \<longleftrightarrow> a = ''m'' \<or> a = ''M''"
  "lower a = ''l'' \<longleftrightarrow> a = ''l'' \<or> a = ''L''"
  "lower a = ''x'' \<longleftrightarrow> a = ''x'' \<or> a = ''X''"
  unfolding lower_single lower_char_letters by blast+

lemma lower_letters:
  "lower a \<in> set size_letters
     \<longleftrightarrow> a \<in> set [''n'', ''N'', ''s'', ''S'', ''m'', ''M'', ''l'', ''L'', ''x'', ''X'']"
  by (simp add: size_letters_def lower_letter_cases)

lemma lower_idem: "lower a \<in> set size_letters \<Longrightarrow> lower (lower a) = lower a"
  by (simp add: size_letters_def) (elim disjE; simp add: lower_def lower_char_unfold)

lemma selected_imports:
  assumes "encodes s = (\<lambda>i. True)"
  shows "ImportYOLO \<in> set (trace (snd (convert_selected L n s)))"
proof -
  obtain r0 w0 where i: "import_YOLO L (world s) = (r0, w0)"
    by (cases "import_YOLO L (world s)")
  obtain r1 w1 where l: "YOLO L (n @ ''.pt'') w0 = (r1, w1)"
    by (cases "YOLO L (n @ ''.pt'') w0")
  obtain r2 w2 where x: "export L (n @ ''.pt'') fixed_configuration w1 = (r2, w2)"
    by (cases "export L (n @ ''.pt'') fixed_configuration w1")
  from assms i l x show ?thesis
    by (cases r0; cases r1; cases r2; cases "files w2 (n @ ''.mlpackage'')")
      (auto simp: convert_selected_def convert_different_sizes_try_def prog_simps
        fixed_configuration_def split: if_splits)
qed

lemma selected_true:
  assumes "encodes s = (\<lambda>i. True)" and "fst (convert_selected L n s) = Inr PyTrue"
  shows "(\<exists>k. files (world (snd (convert_selected L n s))) (n @ ''.mlpackage'') = Some k
       \<and> Print [I Chart, S '' Size: '', MiB k, S '' MB'']
           \<in> set (trace (snd (convert_selected L n s))))
   \<and> Print [I Check, S '' '', S n, S ''.mlpackage created successfully!'']
       \<in> set (trace (snd (convert_selected L n s)))"
proof -
  obtain r0 w0 where i: "import_YOLO L (world s) = (r0, w0)"
    by (cases "import_YOLO L (world s)")
  obtain r1 w1 where l: "YOLO L (n @ ''.pt'') w0 = (r1, w1)"
    by (cases "YOLO L (n @ ''.pt'') w0")
  obtain r2 w2 where x: "export L (n @ ''.pt'') fixed_configuration w1 = (r2, w2)"
    by (cases "export L (n @ ''.pt'') fixed_configuration w1")
  from assms i l x show ?thesis
    by (cases r0; cases r1; cases r2; cases "files w2 (n @ ''.mlpackage'')")
      (auto simp: convert_selected_def convert_different_sizes_try_def prog_simps
        fixed_configuration_def split: if_splits)
qed

lemma selected_no_invalid:
  "silent (\<lambda>e. e = Print [I Cross, S '' Invalid choice'']) (convert_selected L n)"
  unfolding convert_selected_def convert_different_sizes_try_def Let_def
  by (intro silent_intros) simp_all

lemma sizes_run_accepted:
  "stdin w = a # rest \<Longrightarrow> lower a \<in> set size_letters \<Longrightarrow>
   run (convert_different_sizes L) w =
     convert_selected L (''yolov8'' @ lower a)
       \<lparr>world = w\<lparr>stdin := rest\<rparr>, trace = sizes_events, encodes = (\<lambda>i. True)\<rparr>"
  by (simp add: run_def run_on_def sizes_accepted [where rest = rest])

text \<open>
  C8. Model-size selection in \<open>convert_different_sizes\<close> is case-insensitive: the answer
  is lowercased before it is checked, so for every answer whose lowercase form is one of
  the five letters the run is the run on the lowercase answer: the same result, the same
  final world and the same trace, namely the conversion of the model of that letter.
\<close>

theorem size_choice_is_case_insensitive:
  assumes "lower a \<in> set size_letters"
  shows "run (convert_different_sizes L) (w\<lparr>stdin := a # rest\<rparr>)
           = run (convert_different_sizes L) (w\<lparr>stdin := lower a # rest\<rparr>)
       \<and> run (convert_different_sizes L) (w\<lparr>stdin := a # rest\<rparr>)
           = convert_selected L (''yolov8'' @ lower a)
               \<lparr>world = w\<lparr>stdin := rest\<rparr>, trace = sizes_events, encodes = (\<lambda>i. True)\<rparr>"
proof -
  from assms have l: "lower (lower a) \<in> set size_letters"
    by (simp add: lower_idem)
  have "run (convert_different_sizes L) (w\<lparr>stdin := a # rest\<rparr>)
      = convert_selected L (''yolov8'' @ lower a)
          \<lparr>world = w\<lparr>stdin := rest\<rparr>, trace = sizes_events, encodes = (\<lambda>i. True)\<rparr>"
    using sizes_run_accepted [of "w\<lparr>stdin := a # rest\<rparr>" a rest L] assms by simp
  moreover have "run (convert_different_sizes L) (w\<lparr>stdin := lower a # rest\<rparr>)
      = convert_selected L (''yolov8'' @ lower a)
          \<lparr>world = w\<lparr>stdin := rest\<rparr>, trace = sizes_events, encodes = (\<lambda>i. True)\<rparr>"
    using sizes_run_accepted [of "w\<lparr>stdin := lower a # rest\<rparr>" "lower a" rest L] l assms
    by (simp add: lower_idem)
  ultimately show ?thesis
    by simp
qed

theorem size_choice_is_case_insensitive_witness:
  "lower ''X'' \<in> set size_letters
   \<and> run (convert_different_sizes lib_working) ((world_ready [])\<lparr>stdin := [''X'']\<rparr>)
       = run (convert_different_sizes lib_working) ((world_ready [])\<lparr>stdin := [''x'']\<rparr>)
   \<and> Load ''yolov8x.pt''
       \<in> set (trace (snd (run (convert_different_sizes lib_working)
                              ((world_ready [])\<lparr>stdin := [''X'']\<rparr>))))"
proof -
  have a: "lower ''X'' \<in> set size_letters" and b: "lower ''X'' = ''x''"
    by (simp_all add: lower_letters, simp add: lower_def lower_char_def)
  have "Load ''yolov8x.pt''
       \<in> set (trace (snd (run (convert_different_sizes lib_working)
                              ((world_ready [])\<lparr>stdin := [''X'']\<rparr>))))"
    by (simp add: main_simps)
  with size_choice_is_case_insensitive
    [OF a, where L = lib_working and w = "world_ready []" and rest = "[]"] a b
  show ?thesis
    by simp
qed

text \<open>
  C5, as stated: \<open>convert_different_sizes\<close> accepts exactly the letters n, s, m, l, x, and
  for every other input prints an invalid-choice message and returns \<open>False\<close> without
  loading or exporting a model. The answer \<^verbatim>\<open>N\<close> is none of these five strings, and it
  is accepted: the nano model is loaded and exported and no invalid-choice message is
  printed.
\<close>

theorem uppercase_letter_is_accepted:
  "''N'' \<notin> set [''n'', ''s'', ''m'', ''l'', ''x'']
   \<and> fst (run (convert_different_sizes lib_working) (world_ready [''N''])) = Inr PyTrue
   \<and> Load ''yolov8n.pt''
       \<in> set (trace (snd (run (convert_different_sizes lib_working) (world_ready [''N'']))))
   \<and> Export ''yolov8n.pt'' fixed_configuration
       \<in> set (trace (snd (run (convert_different_sizes lib_working) (world_ready [''N'']))))
   \<and> Print [I Cross, S '' Invalid choice'']
       \<notin> set (trace (snd (run (convert_different_sizes lib_working) (world_ready [''N'']))))"
  by (simp add: main_simps)

text \<open>
  C5, amended. The table \<open>models\<close> has five entries, one for each of the model names
  \<^verbatim>\<open>yolov8n\<close>, \<^verbatim>\<open>yolov8s\<close>, \<^verbatim>\<open>yolov8m\<close>, \<^verbatim>\<open>yolov8l\<close>, \<^verbatim>\<open>yolov8x\<close>, with its
  label. The prompt accepts exactly the answers whose lowercase form is one of the five
  letters, which are the ten one-letter strings of either case. For every other answer
  the function prints the invalid-choice message and returns \<open>False\<close>, having done nothing
  but print the table and read the line: no import, no load, no export. For an accepted
  answer the conversion is attempted and no invalid-choice message is printed.
\<close>

theorem size_prompt_accepts_lowercased_letters:
  "map fst models = map (\<lambda>c. ''yolov8'' @ c) size_letters
   \<and> map snd models =
       [''Nano (fastest, smallest)'', ''Small (balanced)'', ''Medium (more accurate)'',
        ''Large (very accurate)'', ''Extra Large (most accurate)'']
   \<and> (lower a \<in> set size_letters
        \<longleftrightarrow> a \<in> set [''n'', ''N'', ''s'', ''S'', ''m'', ''M'', ''l'', ''L'', ''x'', ''X''])
   \<and> (stdin w = a # rest \<and> lower a \<notin> set size_letters \<longrightarrow>
        run (convert_different_sizes L) w =
          (Inr PyFalse,
           \<lparr>world = w\<lparr>stdin := rest\<rparr>,
            trace = sizes_events @ [Print [I Cross, S '' Invalid choice'']],
            encodes = (\<lambda>i. True)\<rparr>)
        \<and> ImportYOLO \<notin> set (trace (snd (run (convert_different_sizes L) w)))
        \<and> Load p \<notin> set (trace (snd (run (convert_different_sizes L) w)))
        \<and> Export p x \<notin> set (trace (snd (run (convert_different_sizes L) w))))
   \<and> (stdin w = a # rest \<and> lower a \<in> set size_letters \<longrightarrow>
        ImportYOLO \<in> set (trace (snd (run (convert_different_sizes L) w)))
        \<and> Print [I Cross, S '' Invalid choice'']
            \<notin> set (trace (snd (run (convert_different_sizes L) w))))"
proof (intro conjI impI)
  show "map fst models = map (\<lambda>c. ''yolov8'' @ c) size_letters"
    by (simp add: models_def size_letters_def)
  show "map snd models =
       [''Nano (fastest, smallest)'', ''Small (balanced)'', ''Medium (more accurate)'',
        ''Large (very accurate)'', ''Extra Large (most accurate)'']"
    by (simp add: models_def)
  show "lower a \<in> set size_letters
        \<longleftrightarrow> a \<in> set [''n'', ''N'', ''s'', ''S'', ''m'', ''M'', ''l'', ''L'', ''x'', ''X'']"
    by (rule lower_letters)
next
  assume "stdin w = a # rest \<and> lower a \<notin> set size_letters"
  then have r: "run (convert_different_sizes L) w =
          (Inr PyFalse,
           \<lparr>world = w\<lparr>stdin := rest\<rparr>,
            trace = sizes_events @ [Print [I Cross, S '' Invalid choice'']],
            encodes = (\<lambda>i. True)\<rparr>)"
    by (simp add: run_def run_on_def sizes_rejected [where rest = rest])
  then show "run (convert_different_sizes L) w =
          (Inr PyFalse,
           \<lparr>world = w\<lparr>stdin := rest\<rparr>,
            trace = sizes_events @ [Print [I Cross, S '' Invalid choice'']],
            encodes = (\<lambda>i. True)\<rparr>)" .
  from r show "ImportYOLO \<notin> set (trace (snd (run (convert_different_sizes L) w)))"
    and "Load p \<notin> set (trace (snd (run (convert_different_sizes L) w)))"
    and "Export p x \<notin> set (trace (snd (run (convert_different_sizes L) w)))"
    by (simp_all add: sizes_events_def)
next
  assume "stdin w = a # rest \<and> lower a \<in> set size_letters"
  then have r: "run (convert_different_sizes L) w =
     convert_selected L (''yolov8'' @ lower a)
       \<lparr>world = w\<lparr>stdin := rest\<rparr>, trace = sizes_events, encodes = (\<lambda>i. True)\<rparr>"
    by (simp add: sizes_run_accepted [where rest = rest])
  then show "ImportYOLO \<in> set (trace (snd (run (convert_different_sizes L) w)))"
    by (simp add: selected_imports)
  show "Print [I Cross, S '' Invalid choice'']
            \<notin> set (trace (snd (run (convert_different_sizes L) w)))"
  proof
    assume "Print [I Cross, S '' Invalid choice'']
            \<in> set (trace (snd (run (convert_different_sizes L) w)))"
    with r silent_from [OF selected_no_invalid,
        of "Print [I Cross, S '' Invalid choice'']" L "''yolov8'' @ lower a"
           "\<lparr>world = w\<lparr>stdin := rest\<rparr>, trace = sizes_events, encodes = (\<lambda>i. True)\<rparr>"]
    show False
      by (simp add: sizes_events_def)
  qed
qed

theorem size_prompt_accepts_lowercased_letters_witness:
  "stdin (world_ready [''nano'']) = ''nano'' # []
   \<and> lower ''nano'' \<notin> set size_letters
   \<and> fst (run (convert_different_sizes lib_working) (world_ready [''nano''])) = Inr PyFalse
   \<and> stdin (world_ready [''M'']) = ''M'' # []
   \<and> lower ''M'' \<in> set size_letters
   \<and> ImportYOLO \<in> set (trace (snd (run (convert_different_sizes lib_working) (world_ready [''M'']))))"
proof -
  have a: "stdin (world_ready [''nano'']) = ''nano'' # [] \<and> lower ''nano'' \<notin> set size_letters"
    and b: "stdin (world_ready [''M'']) = ''M'' # [] \<and> lower ''M'' \<in> set size_letters"
    by (simp_all add: lower_letters example_simps)
  from a b
    size_prompt_accepts_lowercased_letters
      [where a = "''nano''" and w = "world_ready [''nano'']" and rest = "[]" and L = lib_working]
    size_prompt_accepts_lowercased_letters
      [where a = "''M''" and w = "world_ready [''M'']" and rest = "[]" and L = lib_working]
  show ?thesis
    by simp
qed

text \<open>
  C10. In \<open>convert_different_sizes\<close>, for every accepted size letter \<open>c\<close>, the weights
  file loaded and exported is \<^verbatim>\<open>yolov8{c}.pt\<close> and the path checked afterward is
  \<^verbatim>\<open>yolov8{c}.mlpackage\<close>, both built from the one model name; when the function
  returns \<open>True\<close>, the package of that size exists and the lines printed name that
  package and give its size.
\<close>

theorem report_names_selected_package:
  assumes "stdin w = a # rest" and "lower a = c" and "c \<in> set size_letters"
  shows "(Load p \<in> set (trace (snd (run (convert_different_sizes L) w))) \<longrightarrow>
            p = ''yolov8'' @ c @ ''.pt'')
       \<and> (Export p x \<in> set (trace (snd (run (convert_different_sizes L) w))) \<longrightarrow>
            p = ''yolov8'' @ c @ ''.pt'')
       \<and> (Exists p \<in> set (trace (snd (run (convert_different_sizes L) w))) \<longrightarrow>
            p = ''yolov8'' @ c @ ''.mlpackage'')
       \<and> (Stat p \<in> set (trace (snd (run (convert_different_sizes L) w))) \<longrightarrow>
            p = ''yolov8'' @ c @ ''.mlpackage'')
       \<and> (fst (run (convert_different_sizes L) w) = Inr PyTrue \<longrightarrow>
            (\<exists>k. files (world (snd (run (convert_different_sizes L) w)))
                    (''yolov8'' @ c @ ''.mlpackage'') = Some k
                \<and> Print [I Chart, S '' Size: '', MiB k, S '' MB'']
                    \<in> set (trace (snd (run (convert_different_sizes L) w))))
            \<and> Print [I Check, S '' '', S (''yolov8'' @ c), S ''.mlpackage created successfully!'']
                \<in> set (trace (snd (run (convert_different_sizes L) w))))"
proof -
  let ?s = "\<lparr>world = w\<lparr>stdin := rest\<rparr>, trace = sizes_events, encodes = (\<lambda>i. True)\<rparr>"
  from assms have r: "run (convert_different_sizes L) w = convert_selected L (''yolov8'' @ c) ?s"
    using sizes_run_accepted [of w a rest L] by simp
  have ev: "e \<in> set sizes_events \<or> selected_event (''yolov8'' @ c) e"
    if "e \<in> set (trace (snd (run (convert_different_sizes L) w)))" for e
    using that r silent_from [OF selected_events, of e L "''yolov8'' @ c" ?s] by simp
  have "p = ''yolov8'' @ c @ ''.pt''"
    if "Load p \<in> set (trace (snd (run (convert_different_sizes L) w)))"
    using ev [OF that] by (simp add: sizes_events_def selected_event_def)
  moreover have "p = ''yolov8'' @ c @ ''.pt''"
    if "Export p x \<in> set (trace (snd (run (convert_different_sizes L) w)))"
    using ev [OF that] by (simp add: sizes_events_def selected_event_def)
  moreover have "p = ''yolov8'' @ c @ ''.mlpackage''"
    if "Exists p \<in> set (trace (snd (run (convert_different_sizes L) w)))"
    using ev [OF that] by (simp add: sizes_events_def selected_event_def)
  moreover have "p = ''yolov8'' @ c @ ''.mlpackage''"
    if "Stat p \<in> set (trace (snd (run (convert_different_sizes L) w)))"
    using ev [OF that] by (simp add: sizes_events_def selected_event_def)
  moreover have "(\<exists>k. files (world (snd (run (convert_different_sizes L) w)))
                    (''yolov8'' @ c @ ''.mlpackage'') = Some k
                \<and> Print [I Chart, S '' Size: '', MiB k, S '' MB'']
                    \<in> set (trace (snd (run (convert_different_sizes L) w))))
            \<and> Print [I Check, S '' '', S (''yolov8'' @ c), S ''.mlpackage created successfully!'']
                \<in> set (trace (snd (run (convert_different_sizes L) w)))"
    if "fst (run (convert_different_sizes L) w) = Inr PyTrue"
    using that r selected_true [where L = L and n = "''yolov8'' @ c" and s = ?s] by simp
  ultimately show ?thesis
    by blast
qed

theorem report_names_selected_package_witness:
  "stdin (world_ready [''L'']) = ''L'' # []
   \<and> lower ''L'' = ''l''
   \<and> ''l'' \<in> set size_letters
   \<and> Load ''yolov8l.pt''
       \<in> set (trace (snd (run (convert_different_sizes lib_working) (world_ready [''L'']))))
   \<and> Exists ''yolov8l.mlpackage''
       \<in> set (trace (snd (run (convert_different_sizes lib_working) (world_ready [''L'']))))
   \<and> fst (run (convert_different_sizes lib_working) (world_ready [''L''])) = Inr PyTrue
   \<and> Print [I Check, S '' '', S ''yolov8l'', S ''.mlpackage created successfully!'']
       \<in> set (trace (snd (run (convert_different_sizes lib_working) (world_ready [''L'']))))"
proof -
  have a: "stdin (world_ready [''L'']) = ''L'' # []"
    and b: "lower ''L'' = ''l''"
    and c: "''l'' \<in> set size_letters"
    by (simp_all add: example_simps lower_def lower_char_def size_letters_def)
  have d: "Load ''yolov8l.pt''
       \<in> set (trace (snd (run (convert_different_sizes lib_working) (world_ready [''L'']))))"
    "Exists ''yolov8l.mlpackage''
       \<in> set (trace (snd (run (convert_different_sizes lib_working) (world_ready [''L'']))))"
    "fst (run (convert_different_sizes lib_working) (world_ready [''L''])) = Inr PyTrue"
    by (simp_all add: main_simps)
  from d(3) report_names_selected_package [OF a b c, where L = lib_working]
  have "Print [I Check, S '' '', S ''yolov8l'', S ''.mlpackage created successfully!'']
       \<in> set (trace (snd (run (convert_different_sizes lib_working) (world_ready [''L'']))))"
    by simp
  with a b c d show ?thesis
    by simp
qed

end
